theory Spec2Isabelle
  imports Complex_Main "HOL-Library.Multiset"
begin

section \<open>Host values\<close>

text \<open>
  The table in \<^verbatim>\<open>js_dash_table/assets/dash-table.js\<close> works on JSON-like rows. A cell
  is a primitive value of the host language. A number is an IEEE double; every double is a
  rational, an infinity or NaN, and the host's comparison of two doubles is the comparison
  of these exact values, so a number is modelled as \<open>jsnum\<close> below. Strings are sequences of
  code units, here \<open>char\<close> (the code units 0..255).
\<close>

datatype jsnum = NaN | NegInf | Fin rat | PosInf

datatype jsval = JUndefined | JNull | JBool bool | JNum jsnum | JStr string

text \<open>
  A row is an object with ordered own keys. Rows are shared by reference between the three
  tiers; \<open>heap\<close> maps an address to the row that lives there and a tier is a list of
  addresses.
\<close>

type_synonym row = "(string \<times> jsval) list"
type_synonym addr = nat
type_synonym heap = "addr \<Rightarrow> row"

datatype error = TypeError | Error string

section \<open>Array primitives of the host\<close>

text \<open>\<^verbatim>\<open>Array.prototype.findIndex\<close>: the first index whose element satisfies the predicate, or -1.\<close>

fun findIndex :: "('a \<Rightarrow> bool) \<Rightarrow> 'a list \<Rightarrow> int" where
  "findIndex p [] = - 1"
| "findIndex p (x # xs) =
     (if p x then 0 else (let r = findIndex p xs in if r = - 1 then - 1 else r + 1))"

text \<open>\<^verbatim>\<open>Array.prototype.indexOf\<close>: the first index holding a strictly equal value, or -1.\<close>

definition indexOf :: "'a list \<Rightarrow> 'a \<Rightarrow> int" where
  "indexOf xs v = findIndex (\<lambda>x. x = v) xs"

text \<open>
  \<^verbatim>\<open>Array.prototype.splice(start, deleteCount)\<close> with no inserted items: a negative start
  counts from the end, both arguments are clamped to the array.
\<close>

definition Array_splice :: "'a list \<Rightarrow> int \<Rightarrow> int \<Rightarrow> 'a list" where
  "Array_splice xs start deleteCount =
     (let len = int (length xs);
          s = (if start < 0 then max (len + start) 0 else min start len);
          d = min (max deleteCount 0) (len - s)
      in take (nat s) xs @ drop (nat (s + d)) xs)"

text \<open>
  \<^verbatim>\<open>Array.prototype.sort(comparefn)\<close>. The language fixes the result for a consistent
  comparator: the stable sorted arrangement. The model is the stable insertion sort, which
  computes that arrangement; an element moves left only past elements that the comparator
  puts strictly after it. Where a comparator is not consistent (a column that mixes
  numbers with strings that are not numeric) the language leaves the order to the host, and
  the model gives the order of the insertion sort.
\<close>

fun insert_sorted :: "('a \<Rightarrow> 'a \<Rightarrow> int) \<Rightarrow> 'a \<Rightarrow> 'a list \<Rightarrow> 'a list" where
  "insert_sorted cmp x [] = [x]"
| "insert_sorted cmp x (y # ys) =
     (if cmp x y \<le> 0 then x # y # ys else y # insert_sorted cmp x ys)"

definition Array_sort :: "('a \<Rightarrow> 'a \<Rightarrow> int) \<Rightarrow> 'a list \<Rightarrow> 'a list" where
  "Array_sort cmp xs = foldr (insert_sorted cmp) xs []"

text \<open>Strings are ordered by code units, a proper prefix first.\<close>

fun str_lt :: "string \<Rightarrow> string \<Rightarrow> bool" where
  "str_lt [] [] = False"
| "str_lt [] (y # ys) = True"
| "str_lt (x # xs) [] = False"
| "str_lt (x # xs) (y # ys) =
     (if x = y then str_lt xs ys else (of_char x :: nat) < of_char y)"

text \<open>\<^verbatim>\<open>Number.prototype.toString\<close> of a non-negative integer below \<open>10^21\<close>: its decimal digits.\<close>

definition digit_char :: "nat \<Rightarrow> char" where
  "digit_char d = char_of (48 + d)"

function ToString :: "nat \<Rightarrow> string" where
  "ToString n = (if n < 10 then [digit_char n] else ToString (n div 10) @ [digit_char (n mod 10)])"
  by pat_completeness auto
termination
  by (relation "measure id") auto

declare ToString.simps [simp del]

text \<open>
  The comparator that \<^verbatim>\<open>sort()\<close> uses when it is given none: both elements are converted
  to strings and the strings are compared.
\<close>

definition SortCompare :: "nat \<Rightarrow> nat \<Rightarrow> int" where
  "SortCompare x y =
     (let xString = ToString x; yString = ToString y
      in if str_lt xString yString then - 1 else if str_lt yString xString then 1 else 0)"

section \<open>Comparison of host values\<close>

text \<open>
  \<^verbatim>\<open>ToNumber\<close>. The conversion of a string to a number is the host's
  \<^verbatim>\<open>StringToNumber\<close>, with its rounding to the nearest double. It is a parameter
  \<open>tonum\<close> of everything that compares values.
\<close>

type_synonym tonum = "string \<Rightarrow> jsnum"

fun ToNumber :: "tonum \<Rightarrow> jsval \<Rightarrow> jsnum" where
  "ToNumber tonum JUndefined = NaN"
| "ToNumber tonum JNull = Fin 0"
| "ToNumber tonum (JBool b) = Fin (if b then 1 else 0)"
| "ToNumber tonum (JNum n) = n"
| "ToNumber tonum (JStr s) = tonum s"

text \<open>The order of numbers; \<open>None\<close> is the result \<^verbatim>\<open>undefined\<close> of a comparison with NaN.\<close>

fun num_lt :: "jsnum \<Rightarrow> jsnum \<Rightarrow> bool option" where
  "num_lt NaN y = None"
| "num_lt x NaN = None"
| "num_lt NegInf NegInf = Some False"
| "num_lt NegInf y = Some True"
| "num_lt PosInf y = Some False"
| "num_lt (Fin a) NegInf = Some False"
| "num_lt (Fin a) (Fin b) = Some (a < b)"
| "num_lt (Fin a) PosInf = Some True"

text \<open>
  \<^verbatim>\<open>IsLessThan\<close> on primitives: two strings are compared as strings, everything else as
  numbers.
\<close>

fun IsLessThan :: "tonum \<Rightarrow> jsval \<Rightarrow> jsval \<Rightarrow> bool option" where
  "IsLessThan tonum (JStr a) (JStr b) = Some (str_lt a b)"
| "IsLessThan tonum a b = num_lt (ToNumber tonum a) (ToNumber tonum b)"

text \<open>The operators \<^verbatim>\<open><\<close>, \<^verbatim>\<open>>\<close>, \<^verbatim>\<open><=\<close>, \<^verbatim>\<open>>=\<close> and \<^verbatim>\<open>===\<close>.\<close>

definition js_lt :: "tonum \<Rightarrow> jsval \<Rightarrow> jsval \<Rightarrow> bool" where
  "js_lt tonum a b = (IsLessThan tonum a b = Some True)"

definition js_gt :: "tonum \<Rightarrow> jsval \<Rightarrow> jsval \<Rightarrow> bool" where
  "js_gt tonum a b = (IsLessThan tonum b a = Some True)"

definition js_le :: "tonum \<Rightarrow> jsval \<Rightarrow> jsval \<Rightarrow> bool" where
  "js_le tonum a b = (IsLessThan tonum b a = Some False)"

definition js_ge :: "tonum \<Rightarrow> jsval \<Rightarrow> jsval \<Rightarrow> bool" where
  "js_ge tonum a b = (IsLessThan tonum a b = Some False)"

definition js_strict_eq :: "jsval \<Rightarrow> jsval \<Rightarrow> bool" where
  "js_strict_eq a b = (a = b \<and> a \<noteq> JNum NaN)"

section \<open>Rows\<close>

text \<open>\<^verbatim>\<open>item[key]\<close>: the value of an own key, \<^verbatim>\<open>undefined\<close> when the row has none.\<close>

definition get_field :: "row \<Rightarrow> string \<Rightarrow> jsval" where
  "get_field item k = (case map_of item k of None \<Rightarrow> JUndefined | Some v \<Rightarrow> v)"

text \<open>\<^verbatim>\<open>item[key] = v\<close>: an existing key keeps its place, a new key goes last.\<close>

fun set_field :: "row \<Rightarrow> string \<Rightarrow> jsval \<Rightarrow> row" where
  "set_field [] k v = [(k, v)]"
| "set_field (p # ps) k v = (if fst p = k then (k, v) # ps else p # set_field ps k v)"

text \<open>\<^verbatim>\<open>Object.keys(item)\<close>.\<close>

definition Object_keys :: "row \<Rightarrow> string list" where
  "Object_keys item = map fst item"

section \<open>The table state\<close>

record column =
  col_id :: string
  col_name :: string
  col_visible :: bool
  col_selectable :: bool
  col_format_namespace :: "string option"
  col_format :: "string option"

text \<open>An entry of \<^verbatim>\<open>config.sort_by\<close>; an absent \<^verbatim>\<open>order\<close> is \<open>None\<close>.\<close>

record sorter =
  key :: string
  order :: "string option"

text \<open>
  \<^verbatim>\<open>TableState\<close>. The fields of \<^verbatim>\<open>this.config\<close> and \<^verbatim>\<open>this.data\<close> keep their names
  (\<^verbatim>\<open>config.filter\<close> is \<open>filter_text\<close>, \<^verbatim>\<open>config.columns.original\<close> is \<open>columns_original\<close>);
  \<open>invalid\<close> is the presence of the class \<^verbatim>\<open>invalid\<close> on the filter input, the only
  part of the page that the recompute writes. \<^verbatim>\<open>lastVirtualization\<close> is the empty array
  (\<open>None\<close>) or a pair of the filter text and the sort keys and orders. The selections
  hold indices: positions of columns, and the identities of rows, which the code writes as
  positions. A selection mode is a string; one that is neither \<^verbatim>\<open>single\<close> nor
  \<^verbatim>\<open>multi\<close> stands for a selection that is switched off.
\<close>

record state =
  page :: int
  page_size :: int
  filter_text :: string
  sort_by :: "sorter list"
  sort_mode :: string
  row_selectable :: string
  row_index_key :: string
  selected_rows :: "nat list"
  column_selectable :: string
  selected_columns :: "nat list"
  filter_namespace :: string
  filter_action :: string
  format_namespace :: string
  format :: string
  columns_original :: "column list"
  columns_virtual :: "column list"
  heap :: heap
  original :: "addr list"
  filtered :: "addr list"
  virtual :: "addr list"
  lastVirtualization :: "(string \<times> (string \<times> string option) list) option"
  pendingConfigChange :: bool
  pendingHeaderChange :: bool
  invalid :: bool

section \<open>Selections\<close>

text \<open>
  \<^verbatim>\<open>updateSelections(selected, index, {mode})\<close> updates the array in place; the model
  returns the new array. The final \<^verbatim>\<open>selected.sort()\<close> is called without a comparator.
\<close>

definition updateSelections :: "nat list \<Rightarrow> nat \<Rightarrow> string \<Rightarrow> nat list" where
  "updateSelections selected index mode =
     (let includes = indexOf selected index;
          selected1 =
            (if includes \<noteq> - 1 then Array_splice selected includes 1
             else
               (let selected2 = (if mode \<noteq> ''multi'' then Array_splice selected 0 (int (length selected)) else selected)
                in if mode \<in> set [''single'', ''multi''] then selected2 @ [index] else selected2))
      in Array_sort SortCompare selected1)"

section \<open>Pagination\<close>

text \<open>\<^verbatim>\<open>x | 0\<close> on an integer: the value modulo \<open>2^32\<close>, read as a signed 32-bit number.\<close>

definition ToInt32 :: "int \<Rightarrow> int" where
  "ToInt32 x = (x + 2 ^ 31) mod 2 ^ 32 - 2 ^ 31"

text \<open>
  \<^verbatim>\<open>n / p | 0\<close> and \<^verbatim>\<open>n % p !== 0\<close> on integers. The quotient is truncated towards zero;
  division by zero gives an infinity or NaN, which \<^verbatim>\<open>| 0\<close> turns into 0, and the remainder
  by zero is NaN, which is not 0.
\<close>

definition div_trunc32 :: "int \<Rightarrow> int \<Rightarrow> int" where
  "div_trunc32 n p = (if p = 0 then 0 else ToInt32 (sgn n * sgn p * (\<bar>n\<bar> div \<bar>p\<bar>)))"

definition rem_nonzero :: "int \<Rightarrow> int \<Rightarrow> bool" where
  "rem_nonzero n p = (if p = 0 then True else \<bar>n\<bar> mod \<bar>p\<bar> \<noteq> 0)"

definition getLastPage :: "state \<Rightarrow> int" where
  "getLastPage st =
     (let pageSize = page_size st;
          len = int (length (virtual st));
          pageCount = (if len = pageSize then 1 else div_trunc32 len pageSize);
          pageCount1 = (if rem_nonzero len pageSize then pageCount + 1 else pageCount)
      in pageCount1 - 1)"

section \<open>Sort-header click\<close>

text \<open>
  \<^verbatim>\<open>clickColumn(event)\<close>; \<open>index\<close> is the column index parsed from the id of the clicked
  header. Reading \<^verbatim>\<open>["name"]\<close> of a missing column is a TypeError.

  In the \<^verbatim>\<open>desc\<close> branch the source calls \<^verbatim>\<open>sortBy.indexOf(includes)\<close>: it looks the
  number \<open>includes\<close> up among the entries of \<^verbatim>\<open>sortBy\<close>, which are objects. The array of
  the model holds the entries on the left of a sum and the number on the right, so that the
  lookup compares what the source compares.
\<close>

definition clickColumn :: "state \<Rightarrow> nat \<Rightarrow> error + state" where
  "clickColumn st index =
     (if \<not> index < length (columns_virtual st) then Inl TypeError
      else
        (let key' = col_name (columns_virtual st ! index);
             sortBy = sort_by st;
             includes = findIndex (\<lambda>sorter. key sorter = key') sortBy;
             sortBy1 =
               (if includes \<noteq> - 1 then
                  (let sorter = sortBy ! nat includes
                   in if order sorter = Some ''desc''
                      then Array_splice sortBy (indexOf (map Inl sortBy) (Inr includes)) 1
                      else sortBy[nat includes := sorter\<lparr>order := Some ''desc''\<rparr>])
                else
                  (if sort_mode st = ''single'' then Array_splice sortBy 0 (int (length sortBy)) else sortBy)
                    @ [\<lparr>key = key', order = Some ''asc''\<rparr>])
         in Inr (st\<lparr>sort_by := sortBy1, pendingConfigChange := True, pendingHeaderChange := True\<rparr>)))"

section \<open>The default filter\<close>

text \<open>The white space of \<^verbatim>\<open>\s\<close> and of \<^verbatim>\<open>trim()\<close> among the code units 0..255.\<close>

definition is_space :: "char \<Rightarrow> bool" where
  "is_space c = (c \<in> set [CHR 0x09, CHR 0x0A, CHR 0x0B, CHR 0x0C, CHR 0x0D, CHR 0x20, CHR 0xA0])"

definition trim :: "string \<Rightarrow> string" where
  "trim s = rev (dropWhile is_space (rev (dropWhile is_space s)))"

text \<open>
  \<^verbatim>\<open>filter.match(/"[^"]*"|\S+/g)\<close>, all matches from left to right. At a double quote
  that has a closing double quote the match is the quoted piece; otherwise, at a character
  that is not white space, it is the run of such characters; white space is skipped. The
  host gives \<^verbatim>\<open>null\<close> where the model gives the empty list.
\<close>

function match_tokens :: "string \<Rightarrow> string list" where
  "match_tokens [] = []"
| "match_tokens (c # cs) =
     (if c = CHR 0x22 \<and> dropWhile (\<lambda>d. d \<noteq> CHR 0x22) cs \<noteq> [] then
        (CHR 0x22 # takeWhile (\<lambda>d. d \<noteq> CHR 0x22) cs @ [CHR 0x22])
          # match_tokens (tl (dropWhile (\<lambda>d. d \<noteq> CHR 0x22) cs))
      else if is_space c then match_tokens cs
      else (c # takeWhile (\<lambda>d. \<not> is_space d) cs)
          # match_tokens (dropWhile (\<lambda>d. \<not> is_space d) cs))"
  by pat_completeness auto
termination
proof (relation "measure length")
  fix c :: char and cs :: string
  have "length (dropWhile (\<lambda>d. d \<noteq> CHR 0x22) cs) \<le> length cs"
    by (rule length_dropWhile_le)
  then have "length (tl (dropWhile (\<lambda>d. d \<noteq> CHR 0x22) cs)) \<le> length cs"
    by simp
  then show "(tl (dropWhile (\<lambda>d. d \<noteq> CHR 0x22) cs), c # cs) \<in> measure length" by simp
  have "length (dropWhile (\<lambda>d. \<not> is_space d) cs) \<le> length cs"
    by (rule length_dropWhile_le)
  then show "(dropWhile (\<lambda>d. \<not> is_space d) cs, c # cs) \<in> measure length" by simp
qed simp_all

text \<open>\<^verbatim>\<open>key.replace(/^["']|["']$/g, '')\<close>: one quote off the front, then one off the end.\<close>

definition is_quote :: "char \<Rightarrow> bool" where
  "is_quote c = (c = CHR 0x22 \<or> c = CHR 0x27)"

definition strip_quotes :: "string \<Rightarrow> string" where
  "strip_quotes k =
     (let k1 = (case k of [] \<Rightarrow> [] | c # cs \<Rightarrow> if is_quote c then cs else k)
      in if k1 \<noteq> [] \<and> is_quote (last k1) then butlast k1 else k1)"

text \<open>
  The callback that \<^verbatim>\<open>data.filter\<close> runs on each row: the \<^verbatim>\<open>switch\<close> on the operation.
  The value is the third token, a string.
\<close>

definition row_matches :: "tonum \<Rightarrow> string \<Rightarrow> string \<Rightarrow> string \<Rightarrow> row \<Rightarrow> error + bool" where
  "row_matches tonum k operation v item =
     (if operation = ''>'' then Inr (js_gt tonum (get_field item k) (JStr v))
      else if operation = ''>='' then Inr (js_ge tonum (get_field item k) (JStr v))
      else if operation = ''<'' then Inr (js_lt tonum (get_field item k) (JStr v))
      else if operation = ''<='' then Inr (js_le tonum (get_field item k) (JStr v))
      else if operation = ''='' \<or> operation = ''=='' then Inr (js_strict_eq (get_field item k) (JStr v))
      else if operation = ''!='' \<or> operation = ''!=='' then Inr (\<not> js_strict_eq (get_field item k) (JStr v))
      else Inl (Error (''Unknown operation: '' @ operation)))"

text \<open>\<^verbatim>\<open>Array.prototype.filter\<close> with a callback that may throw: the first throw ends the pass.\<close>

fun Array_filter :: "('a \<Rightarrow> error + bool) \<Rightarrow> 'a list \<Rightarrow> error + 'a list" where
  "Array_filter p [] = Inr []"
| "Array_filter p (x # xs) =
     (case p x of
        Inl e \<Rightarrow> Inl e
      | Inr b \<Rightarrow> (case Array_filter p xs of
                   Inl e \<Rightarrow> Inl e
                 | Inr ys \<Rightarrow> Inr (if b then x # ys else ys)))"

text \<open>
  A filter routine gets the filter text and the original rows. It returns the rows of the
  filtered tier, which may be rows it has made, or it throws (rejects).
\<close>

type_synonym filter_fn = "string \<Rightarrow> heap \<Rightarrow> addr list \<Rightarrow> error + (heap \<times> addr list)"

text \<open>
  \<^verbatim>\<open>TABLE_FILTERS.default\<close>. \<^verbatim>\<open>splits.length\<close> of \<^verbatim>\<open>null\<close> is a TypeError.
\<close>

definition TABLE_FILTERS_default :: "tonum \<Rightarrow> filter_fn" where
  "TABLE_FILTERS_default tonum filter' h data =
     (let splits = match_tokens filter'
      in if splits = [] then Inl TypeError
         else if length splits < 3 then Inl (Error ''Filter must have a key, operation, and value.'')
         else if length splits > 3 then Inl (Error ''Filter must only contain a key, operation, and value.'')
         else
           (let k = strip_quotes (splits ! 0); operation = splits ! 1; v = splits ! 2
            in case Array_filter (\<lambda>item. row_matches tonum k operation v (h item)) data of
                 Inl e \<Rightarrow> Inl e
               | Inr rows \<Rightarrow> Inr (h, rows)))"

text \<open>
  The lookup of the routine in \<^verbatim>\<open>updateData\<close>:
  \<^verbatim>\<open>namespace[filter_action] || namespace.default || TABLE_FILTERS.default\<close>, where
  \<^verbatim>\<open>namespace = TABLE_FILTERS[filter_namespace] || {}\<close>. \<open>dflt\<close> is the current value of
  \<^verbatim>\<open>TABLE_FILTERS.default\<close> and \<open>table\<close> holds the namespaces that have been registered
  beside it.
\<close>

type_synonym filter_table = "string \<Rightarrow> (string \<Rightarrow> filter_fn option) option"

definition resolve_filter :: "filter_fn \<Rightarrow> filter_table \<Rightarrow> string \<Rightarrow> string \<Rightarrow> filter_fn" where
  "resolve_filter dflt table ns action =
     (let namespace = (case table ns of None \<Rightarrow> (\<lambda>_. None) | Some m \<Rightarrow> m)
      in case namespace action of
           Some f \<Rightarrow> f
         | None \<Rightarrow> (case namespace ''default'' of Some f \<Rightarrow> f | None \<Rightarrow> dflt))"

section \<open>Columns and row identity\<close>

text \<open>
  The loop of \<^verbatim>\<open>updateColumns\<close> over \<^verbatim>\<open>this.data.filtered.entries()\<close>, when the first
  row does not carry the key: \<^verbatim>\<open>item[rowIndexKey] = index\<close> for every row, written into
  the row object itself.
\<close>

fun assign_index :: "string \<Rightarrow> nat \<Rightarrow> addr list \<Rightarrow> heap \<Rightarrow> heap" where
  "assign_index k index [] h = h"
| "assign_index k index (item # items) h =
     assign_index k (Suc index) items (h(item := set_field (h item) k (JNum (Fin (of_nat index)))))"

text \<open>\<^verbatim>\<open>Array.prototype.toString\<close> of an array of strings: the strings joined by commas.\<close>

fun Array_toString :: "string list \<Rightarrow> string" where
  "Array_toString [] = []"
| "Array_toString [x] = x"
| "Array_toString (x # y # ys) = x @ '','' @ Array_toString (y # ys)"

text \<open>
  One round of the loop over a copy of \<^verbatim>\<open>selected_columns\<close>: an index whose former
  column name is not among the new names is spliced out and the header is marked.
\<close>

definition prune_column :: "string list \<Rightarrow> string list \<Rightarrow> nat \<Rightarrow> nat list \<times> bool \<Rightarrow> nat list \<times> bool" where
  "prune_column originalColumns finalColumns columnIndex acc =
     (if columnIndex < length originalColumns \<and> originalColumns ! columnIndex \<in> set finalColumns
      then acc
      else (Array_splice (fst acc) (indexOf (fst acc) columnIndex) 1, True))"

text \<open>
  \<^verbatim>\<open>updateColumns(original)\<close>. \<^verbatim>\<open>Object.fromEntries\<close> keeps the last descriptor of a
  name. The descriptor made for an unknown name takes the formatting of the table.
\<close>

definition updateColumns :: "state \<Rightarrow> bool \<Rightarrow> state" where
  "updateColumns st original' =
     (let originalColumns = map col_name (columns_virtual st);
          rowIndexKey = row_index_key st;
          columnsByName = map_of (rev (map (\<lambda>col. (col_name col, col)) (columns_original st)));
          firstKeys = (case filtered st of [] \<Rightarrow> [] | item # _ \<Rightarrow> Object_keys (heap st item));
          indexPreserved =
            (if original' then True
             else (case filtered st of
                     [] \<Rightarrow> False
                   | item # _ \<Rightarrow> get_field (heap st item) rowIndexKey \<noteq> JUndefined));
          heap1 = (if original' \<or> indexPreserved then heap st
                   else assign_index rowIndexKey 0 (filtered st) (heap st));
          newColumns = (if firstKeys = [] then map col_name (columns_original st) else firstKeys);
          virtualColumns =
            (if original' then columns_original st
             else map (\<lambda>columnName.
                         case columnsByName columnName of
                           Some col \<Rightarrow> col
                         | None \<Rightarrow> \<lparr>col_id = columnName, col_name = columnName, col_visible = True,
                                     col_selectable = True,
                                     col_format_namespace = Some (format_namespace st),
                                     col_format = Some (format st)\<rparr>)
                      (filter (\<lambda>columnName. columnName \<noteq> rowIndexKey) newColumns));
          finalColumns = map col_name virtualColumns;
          pruned = fold (prune_column originalColumns finalColumns) (selected_columns st)
                     (selected_columns st, pendingHeaderChange st);
          header = (snd pruned \<or> Array_toString originalColumns \<noteq> Array_toString finalColumns);
          st1 = st\<lparr>columns_virtual := virtualColumns, heap := heap1,
                   selected_columns := fst pruned, pendingHeaderChange := header\<rparr>
      in if \<not> indexPreserved then st1\<lparr>selected_rows := [], pendingConfigChange := True\<rparr> else st1)"

section \<open>Sorting\<close>

text \<open>
  The comparator of \<^verbatim>\<open>sortData\<close>: the \<^verbatim>\<open>for\<close> loop over the entries of \<^verbatim>\<open>sortBy\<close>,
  with \<^verbatim>\<open>sorter.order || "asc"\<close>.
\<close>

definition order_of :: "sorter \<Rightarrow> string" where
  "order_of s = (case order s of None \<Rightarrow> ''asc'' | Some ord \<Rightarrow> if ord = [] then ''asc'' else ord)"

fun compare_rows :: "tonum \<Rightarrow> sorter list \<Rightarrow> row \<Rightarrow> row \<Rightarrow> int" where
  "compare_rows tonum [] first second = 0"
| "compare_rows tonum (s # sortBy) first second =
     (if js_lt tonum (get_field first (key s)) (get_field second (key s))
      then (if order_of s = ''asc'' then - 1 else 1)
      else if js_gt tonum (get_field first (key s)) (get_field second (key s))
      then (if order_of s = ''asc'' then 1 else - 1)
      else compare_rows tonum sortBy first second)"

text \<open>\<^verbatim>\<open>sortData(sortBy)\<close> sorts \<^verbatim>\<open>this.data.virtual\<close> in place.\<close>

definition sortData :: "tonum \<Rightarrow> state \<Rightarrow> sorter list \<Rightarrow> state" where
  "sortData tonum st sortBy =
     st\<lparr>virtual := Array_sort (\<lambda>first second. compare_rows tonum sortBy (heap st first) (heap st second))
                      (virtual st)\<rparr>"

section \<open>The recompute cycle\<close>

text \<open>
  \<^verbatim>\<open>updateData()\<close>. \<^verbatim>\<open>newVirtualization\<close> is a new array, so the outer test
  \<^verbatim>\<open>this.lastVirtualization !== newVirtualization\<close> holds on every call; the inner test
  compares the first entry of \<^verbatim>\<open>lastVirtualization\<close>, \<^verbatim>\<open>undefined\<close> at the start, with
  the trimmed filter text. The \<^verbatim>\<open>try\<close> around the call of the routine catches every
  throw, and nothing else in the function throws on a state of this type: the result is
  always a state.
\<close>

definition filter_stage_due :: "state \<Rightarrow> bool" where
  "filter_stage_due st =
     (case lastVirtualization st of None \<Rightarrow> True | Some v \<Rightarrow> fst v \<noteq> trim (filter_text st))"

definition updateData :: "tonum \<Rightarrow> filter_fn \<Rightarrow> filter_table \<Rightarrow> state \<Rightarrow> state" where
  "updateData tonum dflt table st =
     (let newFilter = filter_text st;
          newSorts = map (\<lambda>s. (key s, order s)) (sort_by st);
          originalLength = length (filtered st);
          filter' = trim newFilter;
          st4 =
            (if filter_stage_due st then
               (let filterFunc = resolve_filter dflt table (filter_namespace st) (filter_action st);
                    tried =
                      (if filter' = [] then (st\<lparr>filtered := original st, invalid := False\<rparr>, True, newFilter)
                       else (case filterFunc filter' (heap st) (original st) of
                               Inr res \<Rightarrow>
                                 (st\<lparr>heap := fst res, filtered := snd res, invalid := False\<rparr>, False, filter')
                             | Inl e \<Rightarrow>
                                 (st\<lparr>filtered := original st, invalid := True\<rparr>, True, [])));
                    st1 = fst tried;
                    original' = fst (snd tried);
                    st2 = updateColumns st1 original';
                    st3 = (if originalLength \<noteq> length (filtered st2)
                           then st2\<lparr>page := 0, pendingConfigChange := True\<rparr> else st2)
                in st3\<lparr>lastVirtualization := Some (snd (snd tried), newSorts)\<rparr>)
             else st);
          st5 = st4\<lparr>virtual := filtered st4\<rparr>
      in if sort_by st5 \<noteq> [] then sortData tonum st5 (sort_by st5) else st5)"

section \<open>Example data\<close>

text \<open>A column descriptor as the constructor completes it from an id.\<close>

definition example_column :: "string \<Rightarrow> column" where
  "example_column name =
     \<lparr>col_id = name, col_name = name, col_visible = True, col_selectable = True,
      col_format_namespace = None, col_format = None\<rparr>"

text \<open>
  The rows of the dataset \<^verbatim>\<open>[{Name: "a", Percentage: 0.5}, {Name: "b", Percentage: 0.99}]\<close>
  at the addresses 0 and 1; the rationals stand for the doubles nearest to them.
\<close>

definition example_heap :: heap where
  "example_heap =
     (\<lambda>_. [])(0 := [(''Name'', JStr ''a''), (''Percentage'', JNum (Fin (1 / 2)))],
              1 := [(''Name'', JStr ''b''), (''Percentage'', JNum (Fin (99 / 100)))])"

text \<open>
  The state that the constructor builds from the default configuration, the two columns
  and a dataset, before the first \<^verbatim>\<open>update()\<close>.
\<close>

definition example_state :: "heap \<Rightarrow> addr list \<Rightarrow> state" where
  "example_state h rows =
     \<lparr>page = 0, page_size = 10, filter_text = [], sort_by = [], sort_mode = ''single'',
      row_selectable = ''multi'', row_index_key = ''row_index'', selected_rows = [],
      column_selectable = ''multi'', selected_columns = [],
      filter_namespace = ''default'', filter_action = ''native'',
      format_namespace = ''default'', format = ''default'',
      columns_original = [example_column ''Name'', example_column ''Percentage''],
      columns_virtual = [example_column ''Name'', example_column ''Percentage''],
      heap = h, original = rows, filtered = [], virtual = [],
      lastVirtualization = None, pendingConfigChange = True, pendingHeaderChange = True,
      invalid = False\<rparr>"

text \<open>
  A host conversion that knows the one numeric literal of the examples: \<^verbatim>\<open>".6"\<close> is the
  double nearest to three fifths. Every other string of the examples is not numeric.
\<close>

definition example_tonum :: tonum where
  "example_tonum s = (if s = ''.6'' then Fin (3 / 5) else NaN)"

text \<open>The registry as the script leaves it: no namespace beside the default routine.\<close>

definition no_table :: filter_table where
  "no_table = (\<lambda>_. None)"

text \<open>
  Three rows, two of which share their \<^verbatim>\<open>Percentage\<close>, with the sort specification
  \<^verbatim>\<open>[{key: "Percentage", order: "desc"}]\<close>, after the filter stage has copied them.
\<close>

definition sort_heap :: heap where
  "sort_heap =
     (\<lambda>_. [])(0 := [(''Name'', JStr ''a''), (''Percentage'', JNum (Fin (1 / 2)))],
              1 := [(''Name'', JStr ''b''), (''Percentage'', JNum (Fin (99 / 100)))],
              2 := [(''Name'', JStr ''c''), (''Percentage'', JNum (Fin (1 / 2)))])"

definition sort_state :: state where
  "sort_state =
     (example_state sort_heap [0, 1, 2])
       \<lparr>sort_by := [\<lparr>key = ''Percentage'', order = Some ''desc''\<rparr>],
        filtered := [0, 1, 2], virtual := [0, 1, 2]\<rparr>"

text \<open>The example state after a first cycle, with both rows selected and a filter typed in.\<close>

definition filter_state :: state where
  "filter_state =
     (example_state example_heap [0, 1])
       \<lparr>filter_text := ''Percentage > .6'', selected_rows := [0, 1], page := 1,
        filtered := [0, 1], virtual := [0, 1], lastVirtualization := Some ([], []),
        pendingConfigChange := False, pendingHeaderChange := False\<rparr>"


section \<open>Facts about the array primitives\<close>

lemma findIndex_ge: "- 1 \<le> findIndex p xs"
  by (induction xs) (auto simp: Let_def)

lemma findIndex_lt: "findIndex p xs < int (length xs)"
  by (induction xs) (auto simp: Let_def)

lemma findIndex_neg_iff: "findIndex p xs = - 1 \<longleftrightarrow> (\<forall>x \<in> set xs. \<not> p x)"
proof (induction xs)
  case Nil
  then show ?case by simp
next
  case (Cons a xs)
  then show ?case using findIndex_ge [of p xs] by (auto simp: Let_def)
qed

lemma indexOf_neg_iff: "indexOf xs v = - 1 \<longleftrightarrow> v \<notin> set xs"
  by (auto simp: indexOf_def findIndex_neg_iff)

text \<open>A number is never found among objects.\<close>

lemma indexOf_Inl_Inr: "indexOf (map Inl xs) (Inr v) = - 1"
  by (simp add: indexOf_def findIndex_neg_iff)

text \<open>Deleting one element at the index of a value removes its first occurrence.\<close>

lemma splice_indexOf: "v \<in> set xs \<Longrightarrow> Array_splice xs (indexOf xs v) 1 = remove1 v xs"
proof (induction xs)
  case Nil
  then show ?case by simp
next
  case (Cons a xs)
  show ?case
  proof (cases "a = v")
    case True
    then show ?thesis by (simp add: indexOf_def Array_splice_def)
  next
    case False
    then have v: "v \<in> set xs" using Cons.prems by simp
    then have ne: "indexOf xs v \<noteq> - 1" by (simp add: indexOf_neg_iff)
    have ge: "0 \<le> indexOf xs v"
      using findIndex_ge [of "\<lambda>x. x = v" xs] ne by (simp add: indexOf_def)
    have lt: "indexOf xs v < int (length xs)" by (simp add: indexOf_def findIndex_lt)
    have "indexOf (a # xs) v = indexOf xs v + 1"
      using False ne by (simp add: indexOf_def Let_def)
    moreover have "Array_splice (a # xs) (indexOf xs v + 1) 1 = a # Array_splice xs (indexOf xs v) 1"
      using ge lt by (simp add: Array_splice_def Let_def nat_add_distrib min_def max_def)
    ultimately show ?thesis using Cons.IH [OF v] False by simp
  qed
qed

text \<open>\<^verbatim>\<open>xs.splice(0, xs.length)\<close> empties the array; \<^verbatim>\<open>xs.splice(-1, 1)\<close> drops its last element.\<close>

lemma splice_all: "Array_splice xs 0 (int (length xs)) = []"
  by (simp add: Array_splice_def)

lemma splice_all_Nil: "Array_splice [] 0 0 = []"
  by (simp add: Array_splice_def)

lemma splice_last: "Array_splice xs (- 1) 1 = butlast xs"
proof (cases xs rule: rev_cases)
  case Nil
  then show ?thesis by (simp add: Array_splice_def)
next
  case (snoc ys y)
  have "nat (int (length ys) + 1) = Suc (length ys)" by simp
  then show ?thesis using snoc by (simp add: Array_splice_def Let_def max_def min_def)
qed

text \<open>Sorting rearranges: the elements and their multiplicities stay.\<close>

lemma mset_insert_sorted: "mset (insert_sorted cmp x ys) = add_mset x (mset ys)"
  by (induction ys) auto

lemma mset_Array_sort: "mset (Array_sort cmp xs) = mset xs"
  by (induction xs) (auto simp: Array_sort_def mset_insert_sorted)

lemma set_Array_sort: "set (Array_sort cmp xs) = set xs"
  using mset_Array_sort [of cmp xs] by (metis set_mset_mset)

lemma distinct_Array_sort: "distinct (Array_sort cmp xs) = distinct xs"
  using mset_Array_sort [of cmp xs] by (rule mset_eq_imp_distinct_iff)

lemma length_Array_sort: "length (Array_sort cmp xs) = length xs"
  using mset_Array_sort [of cmp xs] by (metis size_mset)

section \<open>Pagination\<close>

lemma ToInt32_id: "- (2 ^ 31) \<le> x \<Longrightarrow> x < 2 ^ 31 \<Longrightarrow> ToInt32 x = x"
  unfolding ToInt32_def by (simp add: mod_pos_pos_trivial)

text \<open>
  On a tier that is not empty, and whose page count fits 32 bits, \<open>getLastPage\<close> is the
  index of the last page: the ceiling of length over page size, less one.
\<close>

lemma getLastPage_nonempty:
  assumes p: "0 < page_size st" and n: "virtual st \<noteq> []"
    and small: "int (length (virtual st)) div page_size st < 2 ^ 31"
  shows "getLastPage st = \<lceil>real (length (virtual st)) / real_of_int (page_size st)\<rceil> - 1"
proof -
  define len where "len = int (length (virtual st))"
  define ps where "ps = page_size st"
  have len0: "0 < len" using n by (simp add: len_def)
  have ps0: "ps \<noteq> 0" using p by (simp add: ps_def)
  have q0: "0 \<le> len div ps" using len0 p by (simp add: ps_def pos_imp_zdiv_nonneg_iff)
  have d: "div_trunc32 len ps = len div ps"
    using len0 p small q0 by (simp add: div_trunc32_def ps_def len_def ToInt32_id)
  have r: "rem_nonzero len ps = (len mod ps \<noteq> 0)"
    using len0 p by (simp add: rem_nonzero_def ps_def)
  have c: "\<lceil>real_of_int len / real_of_int ps\<rceil> = (if len mod ps = 0 then len div ps else len div ps + 1)"
    using ps0 by (simp add: ceiling_divide_eq_div zdiv_zminus1_eq_if)
  have e: "len = ps \<Longrightarrow> len div ps = 1" using p by (simp add: ps_def)
  have "getLastPage st = (if len mod ps \<noteq> 0 then len div ps + 1 else len div ps) - 1"
    using d r e by (simp add: getLastPage_def Let_def len_def ps_def)
  then show ?thesis using c by (simp add: len_def ps_def)
qed

lemma getLastPage_25_rows: "getLastPage (st\<lparr>virtual := replicate 25 a, page_size := 10\<rparr>) = 2"
  by (simp add: getLastPage_def div_trunc32_def rem_nonzero_def ToInt32_def)

lemma getLastPage_no_rows: "0 < page_size st \<Longrightarrow> virtual st = [] \<Longrightarrow> getLastPage st = - 1"
  by (simp add: getLastPage_def div_trunc32_def rem_nonzero_def ToInt32_def)

text \<open>
  Claim C3. The claim says that the last-page computation returns \<open>max 0 (ceil (n / p) - 1)\<close>
  for every length \<open>n\<close> and page size \<open>p > 0\<close>, and 0 for \<open>n = 0\<close>. On the empty tier the
  code computes a page count of 0 and returns -1: with page size 10 and no rows the result
  is -1, not 0.
\<close>

theorem getLastPage_empty_tier: "getLastPage (st\<lparr>virtual := [], page_size := 10\<rparr>) = - 1"
  by (simp add: getLastPage_def div_trunc32_def rem_nonzero_def ToInt32_def)

section \<open>Selections\<close>

text \<open>
  Claim C8. The claim says that toggling the same index twice gives the selection back, in
  mode \<^verbatim>\<open>single\<close> and in mode \<^verbatim>\<open>multi\<close>. In mode \<^verbatim>\<open>single\<close> the first toggle of an
  absent index clears the other members, which the second toggle does not bring back:
  from the selection 1, toggling 2 twice leaves nothing selected.
\<close>

theorem updateSelections_twice_single_counterexample:
  "updateSelections (updateSelections [1] 2 ''single'') 2 ''single'' \<noteq> [1]"
  by code_simp

text \<open>
  Claim C8, amended. For a selection without duplicates, toggling the same index twice
  gives back the same members in mode \<^verbatim>\<open>multi\<close>, and in mode \<^verbatim>\<open>single\<close> when the
  selection holds no index other than the toggled one.
\<close>

theorem updateSelections_twice:
  assumes "distinct S" and "mode = ''multi'' \<or> (mode = ''single'' \<and> set S \<subseteq> {i})"
  shows "set (updateSelections (updateSelections S i mode) i mode) = set S"
proof (cases "i \<in> set S")
  case True
  have one: "updateSelections S i mode = Array_sort SortCompare (remove1 i S)"
    using True by (simp add: updateSelections_def Let_def indexOf_neg_iff splice_indexOf)
  have notin: "i \<notin> set (Array_sort SortCompare (remove1 i S))"
    using assms(1) by (simp add: set_Array_sort)
  have single: "mode = ''single'' \<Longrightarrow> remove1 i S = []"
  proof -
    assume "mode = ''single''"
    then have "set S = {i}" using assms(2) True by auto
    then have "set (remove1 i S) = {}" using assms(1) by simp
    then show ?thesis by simp
  qed
  have S: "set S = insert i (set (remove1 i S))"
    using True assms(1) by auto
  have "updateSelections (Array_sort SortCompare (remove1 i S)) i mode =
      Array_sort SortCompare ((if mode = ''multi'' then Array_sort SortCompare (remove1 i S) else []) @ [i])"
    using assms(2) notin
    by (auto simp add: updateSelections_def Let_def indexOf_neg_iff splice_all splice_all_Nil)
  then show ?thesis
    unfolding one using single assms(2) S by (auto simp add: set_Array_sort)
next
  case False
  have S: "mode = ''single'' \<Longrightarrow> S = []" using assms(2) False by (cases S) auto
  have one: "updateSelections S i mode = Array_sort SortCompare (S @ [i])"
    using False assms(2) S
    by (auto simp add: updateSelections_def Let_def indexOf_neg_iff splice_all splice_all_Nil)
  have "i \<in> set (Array_sort SortCompare (S @ [i]))" by (simp add: set_Array_sort)
  then show ?thesis
    using False assms(1) unfolding one
    by (simp add: updateSelections_def Let_def indexOf_neg_iff splice_indexOf set_Array_sort
        distinct_Array_sort)
qed

theorem updateSelections_twice_witness:
  "distinct [1, 3 :: nat] \<and>
   set (updateSelections (updateSelections [1, 3] 2 ''multi'') 2 ''multi'') = set [1, 3] \<and>
   set [5 :: nat] \<subseteq> {5} \<and>
   set (updateSelections (updateSelections [5] 5 ''single'') 5 ''single'') = set [5]"
  using updateSelections_twice [of "[1, 3]" "''multi''" 2]
    updateSelections_twice [of "[5]" "''single''" 5]
  by simp

text \<open>In mode \<^verbatim>\<open>single\<close>, selecting one index and then another leaves the second.\<close>

lemma Array_sort_single: "Array_sort cmp [x] = [x]"
  by (simp add: Array_sort_def)

lemma updateSelections_single_replaces:
  "x \<noteq> y \<Longrightarrow> updateSelections (updateSelections [] x ''single'') y ''single'' = [y]"
  by (simp add: updateSelections_def Let_def indexOf_def splice_all_Nil Array_sort_single Array_splice_def)

text \<open>
  Claim C9. The claim says that after every toggle the selection is in ascending order, so
  that toggling 10 into the selection 2 gives 2, 10. The code sorts with \<^verbatim>\<open>sort()\<close> and
  no comparator, which orders the indices as strings: the result is 10, 2.
\<close>

theorem updateSelections_10_before_2: "updateSelections [2] 10 ''multi'' = [10, 2]"
  by code_simp

section \<open>Sort-header click\<close>

text \<open>The branches of \<open>clickColumn\<close> that do what the header click is meant to do.\<close>

lemma clickColumn_asc_to_desc:
  assumes "index < length (columns_virtual st)"
    and "findIndex (\<lambda>s. key s = col_name (columns_virtual st ! index)) (sort_by st) = int j"
    and "order (sort_by st ! j) \<noteq> Some ''desc''"
  shows "clickColumn st index =
    Inr (st\<lparr>sort_by := (sort_by st)[j := (sort_by st ! j)\<lparr>order := Some ''desc''\<rparr>],
            pendingConfigChange := True, pendingHeaderChange := True\<rparr>)"
  using assms by (simp add: clickColumn_def Let_def)

lemma clickColumn_absent:
  assumes "index < length (columns_virtual st)"
    and "\<forall>s \<in> set (sort_by st). key s \<noteq> col_name (columns_virtual st ! index)"
  shows "clickColumn st index =
    Inr (st\<lparr>sort_by := (if sort_mode st = ''single'' then [] else sort_by st)
                @ [\<lparr>key = col_name (columns_virtual st ! index), order = Some ''asc''\<rparr>],
            pendingConfigChange := True, pendingHeaderChange := True\<rparr>)"
proof -
  have "findIndex (\<lambda>s. key s = col_name (columns_virtual st ! index)) (sort_by st) = - 1"
    using assms(2) by (simp add: findIndex_neg_iff)
  then show ?thesis using assms(1) by (simp add: clickColumn_def Let_def splice_all)
qed

text \<open>
  A click on a column that is sorted descending drops the last entry of the specification,
  whichever column it belongs to.
\<close>

lemma clickColumn_desc:
  assumes "index < length (columns_virtual st)"
    and "findIndex (\<lambda>s. key s = col_name (columns_virtual st ! index)) (sort_by st) = int j"
    and "order (sort_by st ! j) = Some ''desc''"
  shows "clickColumn st index =
    Inr (st\<lparr>sort_by := butlast (sort_by st),
            pendingConfigChange := True, pendingHeaderChange := True\<rparr>)"
  using assms by (simp add: clickColumn_def Let_def indexOf_Inl_Inr splice_last)

text \<open>
  Claim C4. The claim says that a click on a column whose entry is \<^verbatim>\<open>desc\<close> removes that
  entry and only that entry. The code removes the last entry instead: with the
  specification A descending, B ascending, a click on A leaves A descending and drops B.
\<close>

theorem clickColumn_desc_drops_other_entry:
  "map_sum id sort_by
     (clickColumn
        (st\<lparr>columns_virtual := [example_column ''A'', example_column ''B''],
            sort_mode := ''multi'',
            sort_by := [\<lparr>key = ''A'', order = Some ''desc''\<rparr>, \<lparr>key = ''B'', order = Some ''asc''\<rparr>]\<rparr>)
        0)
   = Inr [\<lparr>key = ''A'', order = Some ''desc''\<rparr>]"
  by (simp add: clickColumn_def example_column_def indexOf_def Array_splice_def Let_def)

section \<open>The comparator and the sort\<close>

lemma str_lt_asym: "str_lt a b \<Longrightarrow> \<not> str_lt b a"
  by (induction a b rule: str_lt.induct) (auto split: if_splits)

lemma num_lt_asym: "num_lt x y = Some True \<Longrightarrow> num_lt y x \<noteq> Some True"
  by (cases x; cases y) auto

lemma IsLessThan_asym: "IsLessThan tonum a b = Some True \<Longrightarrow> IsLessThan tonum b a \<noteq> Some True"
proof (cases "\<exists>s t. a = JStr s \<and> b = JStr t")
  case True
  then show "IsLessThan tonum a b = Some True \<Longrightarrow> IsLessThan tonum b a \<noteq> Some True"
    using str_lt_asym by auto
next
  case False
  then have "IsLessThan tonum a b = num_lt (ToNumber tonum a) (ToNumber tonum b)"
    and "IsLessThan tonum b a = num_lt (ToNumber tonum b) (ToNumber tonum a)"
    by (cases a; cases b; simp)+
  then show "IsLessThan tonum a b = Some True \<Longrightarrow> IsLessThan tonum b a \<noteq> Some True"
    using num_lt_asym by simp
qed

lemma js_lt_asym: "js_lt tonum a b \<Longrightarrow> \<not> js_lt tonum b a"
  using IsLessThan_asym by (auto simp: js_lt_def)

lemma js_gt_lt: "js_gt tonum a b = js_lt tonum b a"
  by (simp add: js_gt_def js_lt_def)

text \<open>Swapping the two rows negates the comparator; a row compares equal to itself.\<close>

lemma compare_rows_flip: "compare_rows tonum S b a = - compare_rows tonum S a b"
  by (induction S) (auto simp: js_gt_lt dest: js_lt_asym)

lemma compare_rows_refl: "compare_rows tonum S a a = 0"
  using compare_rows_flip [of tonum S a a] by linarith










section \<open>What the recompute leaves alone\<close>

lemma updateColumns_frame:
  "filtered (updateColumns st b) = filtered st"
  "original (updateColumns st b) = original st"
  "page (updateColumns st b) = page st"
  "invalid (updateColumns st b) = invalid st"
  "sort_by (updateColumns st b) = sort_by st"
  "row_index_key (updateColumns st b) = row_index_key st"
  by (simp_all add: updateColumns_def Let_def)

text \<open>
  With the original rows, \<open>updateColumns\<close> writes no identity and keeps the row selection.
\<close>

lemma updateColumns_original:
  "heap (updateColumns st True) = heap st"
  "selected_rows (updateColumns st True) = selected_rows st"
  "columns_virtual (updateColumns st True) = columns_original st"
  by (simp_all add: updateColumns_def Let_def)


lemma sortData_frame:
  "filtered (sortData tonum st S) = filtered st"
  "original (sortData tonum st S) = original st"
  "heap (sortData tonum st S) = heap st"
  "page (sortData tonum st S) = page st"
  "invalid (sortData tonum st S) = invalid st"
  "selected_rows (sortData tonum st S) = selected_rows st"
  "pendingConfigChange (sortData tonum st S) = pendingConfigChange st"
  "row_index_key (sortData tonum st S) = row_index_key st"
  by (simp_all add: sortData_def)




text \<open>
  The rows with the percentages 0.5, 0.99, 0.5 sorted by percentage, descending, and the
  rows named a, b, c sorted by name, descending.
\<close>

lemma sortData_percentage_desc:
  "virtual (sortData example_tonum sort_state (sort_by sort_state)) = [1, 0, 2]"
  by code_simp

lemma sortData_name_desc:
  "virtual (sortData example_tonum sort_state [\<lparr>key = ''Name'', order = Some ''desc''\<rparr>]) = [2, 1, 0]"
  by code_simp

section \<open>The default filter\<close>

lemma Array_filter_total:
  assumes "\<And>x. x \<in> set xs \<Longrightarrow> p x = Inr (q x)"
  shows "Array_filter p xs = Inr (filter q xs)"
  using assms by (induction xs) auto

lemma Array_filter_throws:
  assumes "xs \<noteq> []" and "\<And>x. p x = Inl e"
  shows "Array_filter p xs = Inl e"
  using assms by (cases xs) auto

text \<open>A text that does not split into three tokens is rejected, whatever the rows.\<close>

lemma default_token_count:
  assumes "length (match_tokens filter') \<noteq> 3"
  shows "\<exists>e. TABLE_FILTERS_default tonum filter' h data = Inl e"
  using assms by (auto simp add: TABLE_FILTERS_default_def Let_def)

text \<open>An operation that the \<^verbatim>\<open>switch\<close> does not know is rejected when there is a row to test.\<close>

lemma default_unknown_operation:
  assumes "length (match_tokens filter') = 3"
    and "match_tokens filter' ! 1 \<notin> set [''>'', ''>='', ''<'', ''<='', ''='', ''=='', ''!='', ''!=='']"
    and "data \<noteq> []"
  shows "TABLE_FILTERS_default tonum filter' h data
    = Inl (Error (''Unknown operation: '' @ match_tokens filter' ! 1))"
proof -
  have "\<And>item. row_matches tonum (strip_quotes (match_tokens filter' ! 0)) (match_tokens filter' ! 1)
      (match_tokens filter' ! 2) (h item) = Inl (Error (''Unknown operation: '' @ match_tokens filter' ! 1))"
    using assms(2) by (simp add: row_matches_def)
  then have "Array_filter (\<lambda>item. row_matches tonum (strip_quotes (match_tokens filter' ! 0))
      (match_tokens filter' ! 1) (match_tokens filter' ! 2) (h item)) data
      = Inl (Error (''Unknown operation: '' @ match_tokens filter' ! 1))"
    using assms(3) by (intro Array_filter_throws) auto
  then show ?thesis using assms(1) by (auto simp add: TABLE_FILTERS_default_def Let_def)
qed

text \<open>
  With three tokens and a known operation nothing is thrown: the routine keeps the rows
  on which the comparison of the \<^verbatim>\<open>switch\<close> holds, between the field read under the
  key without its quotes and the third token.
\<close>

lemma row_matches_known:
  assumes "operation \<in> set [''>'', ''>='', ''<'', ''<='', ''='', ''=='', ''!='', ''!=='']"
  shows "\<exists>b. row_matches tonum k operation v item = Inr b"
  using assms by (auto simp add: row_matches_def)

lemma default_known_operation:
  assumes "length (match_tokens filter') = 3"
    and "match_tokens filter' ! 1 \<in> set [''>'', ''>='', ''<'', ''<='', ''='', ''=='', ''!='', ''!=='']"
  shows "TABLE_FILTERS_default tonum filter' h data
    = Inr (h, filter (\<lambda>item. row_matches tonum (strip_quotes (match_tokens filter' ! 0))
                               (match_tokens filter' ! 1) (match_tokens filter' ! 2) (h item) = Inr True)
                data)"
proof -
  let ?p = "\<lambda>item. row_matches tonum (strip_quotes (match_tokens filter' ! 0))
      (match_tokens filter' ! 1) (match_tokens filter' ! 2) (h item)"
  have "?p item = Inr (?p item = Inr True)" for item
    using row_matches_known [OF assms(2), of tonum "strip_quotes (match_tokens filter' ! 0)"
        "match_tokens filter' ! 2" "h item"]
    by auto
  then have "Array_filter ?p data = Inr (filter (\<lambda>item. ?p item = Inr True) data)"
    by (intro Array_filter_total) auto
  then show ?thesis using assms(1) by (auto simp add: TABLE_FILTERS_default_def Let_def)
qed

text \<open>The operations compare with the host's operators; equality is the strict one.\<close>

lemma row_matches_operations:
  "row_matches tonum k ''>'' v item = Inr (js_gt tonum (get_field item k) (JStr v))"
  "row_matches tonum k ''>='' v item = Inr (js_ge tonum (get_field item k) (JStr v))"
  "row_matches tonum k ''<'' v item = Inr (js_lt tonum (get_field item k) (JStr v))"
  "row_matches tonum k ''<='' v item = Inr (js_le tonum (get_field item k) (JStr v))"
  "row_matches tonum k ''='' v item = Inr (js_strict_eq (get_field item k) (JStr v))"
  "row_matches tonum k ''=='' v item = Inr (js_strict_eq (get_field item k) (JStr v))"
  "row_matches tonum k ''!='' v item = Inr (\<not> js_strict_eq (get_field item k) (JStr v))"
  "row_matches tonum k ''!=='' v item = Inr (\<not> js_strict_eq (get_field item k) (JStr v))"
  by (simp_all add: row_matches_def)


lemma match_tokens_garbage:
  "match_tokens ''garbage token count'' = [''garbage'', ''token'', ''count'']"
  by (simp add: is_space_def)

text \<open>On a dataset without rows every text of three tokens is accepted.\<close>

lemma default_no_rows:
  "length (match_tokens filter') = 3 \<Longrightarrow> TABLE_FILTERS_default tonum filter' h [] = Inr (h, [])"
  by (auto simp add: TABLE_FILTERS_default_def Let_def)

text \<open>
  Claim C6. The claim says that the default routine fails on every text whose operator is
  not one of \<^verbatim>\<open>> >= < <= = == != !==\<close>. The operator is looked at inside the callback
  that runs once for each row, so on a dataset without rows nothing is looked at: the text
  \<^verbatim>\<open>Percentage ~ .6\<close> on the empty dataset is accepted and gives the empty result.
\<close>

theorem default_unknown_operation_no_rows:
  "TABLE_FILTERS_default tonum ''Percentage ~ .6'' h [] = Inr (h, [])"
  by (simp add: TABLE_FILTERS_default_def Let_def is_space_def)

section \<open>The recompute cycle\<close>

text \<open>
  When the routine throws on a text that is not blank, in a cycle whose filter stage
  runs, the filtered tier is the original rows again, no row and no selection is touched,
  and the filter input is marked invalid.
\<close>

lemma updateData_routine_throws:
  assumes "filter_stage_due st"
    and "trim (filter_text st) \<noteq> []"
    and "resolve_filter dflt table (filter_namespace st) (filter_action st)
           (trim (filter_text st)) (heap st) (original st) = Inl e"
  shows "filtered (updateData tonum dflt table st) = original st"
    and "original (updateData tonum dflt table st) = original st"
    and "heap (updateData tonum dflt table st) = heap st"
    and "selected_rows (updateData tonum dflt table st) = selected_rows st"
    and "invalid (updateData tonum dflt table st)"
  using assms
  by (simp_all add: updateData_def Let_def updateColumns_frame updateColumns_original sortData_frame)

text \<open>
  Claim C1. The claim says that for every dataset a text that the default grammar does
  not accept ends with the original rows, identity kept and the view marked invalid. With
  the text \<^verbatim>\<open>garbage token count\<close>, whose operator \<^verbatim>\<open>token\<close> is unknown, and a dataset
  without rows, the default routine does not throw: the view is not marked invalid and the
  pass counts as one that lost identity, so the row selection is emptied.
\<close>

theorem updateData_garbage_no_rows:
  "\<not> invalid (updateData example_tonum (TABLE_FILTERS_default example_tonum) no_table
       ((example_state example_heap [])\<lparr>filter_text := ''garbage token count'', selected_rows := [0]\<rparr>))
   \<and> selected_rows (updateData example_tonum (TABLE_FILTERS_default example_tonum) no_table
       ((example_state example_heap [])\<lparr>filter_text := ''garbage token count'', selected_rows := [0]\<rparr>))
      = []"
  by code_simp

text \<open>The same text on the two example rows is rejected and handled as the claim says.\<close>

lemma updateData_garbage_two_rows:
  "invalid (updateData example_tonum (TABLE_FILTERS_default example_tonum) no_table
       ((example_state example_heap [0, 1])\<lparr>filter_text := ''garbage token count'', selected_rows := [0]\<rparr>))
   \<and> filtered (updateData example_tonum (TABLE_FILTERS_default example_tonum) no_table
       ((example_state example_heap [0, 1])\<lparr>filter_text := ''garbage token count'', selected_rows := [0]\<rparr>))
      = [0, 1]
   \<and> selected_rows (updateData example_tonum (TABLE_FILTERS_default example_tonum) no_table
       ((example_state example_heap [0, 1])\<lparr>filter_text := ''garbage token count'', selected_rows := [0]\<rparr>))
      = [0]"
  by code_simp

text \<open>
  Claim C2. The claim says that after a recompute with a blank filter text the identity of
  each filtered row is its position in the dataset. On this path the code copies the
  original rows and writes no identity: the second example row has no \<^verbatim>\<open>row_index\<close>
  afterwards, where the claim expects 1.
\<close>

theorem updateData_empty_filter_no_identity:
  "get_field
     (heap (updateData example_tonum (TABLE_FILTERS_default example_tonum) no_table
              (example_state example_heap [0, 1]))
        (filtered (updateData example_tonum (TABLE_FILTERS_default example_tonum) no_table
              (example_state example_heap [0, 1])) ! 1))
     ''row_index'' \<noteq> JNum (Fin 1)"
  by code_simp

text \<open>
  Claim C2, amended. In a cycle whose filter stage runs with a blank filter text, the
  filtered tier is a new array of the original rows, equal to the dataset by value; every
  filtered row carries the identity that the row has in the dataset, which the cycle
  neither writes nor changes; the row selection is kept and the filter input is not marked
  invalid.
\<close>

theorem updateData_empty_filter:
  assumes "trim (filter_text st) = []" and "filter_stage_due st"
  shows "filtered (updateData tonum dflt table st) = original st
    \<and> map (heap (updateData tonum dflt table st)) (filtered (updateData tonum dflt table st))
        = map (heap st) (original st)
    \<and> map (\<lambda>item. get_field (heap (updateData tonum dflt table st) item) (row_index_key st))
          (filtered (updateData tonum dflt table st))
        = map (\<lambda>item. get_field (heap st item) (row_index_key st)) (original st)
    \<and> selected_rows (updateData tonum dflt table st) = selected_rows st
    \<and> \<not> invalid (updateData tonum dflt table st)"
  using assms
  by (simp add: updateData_def Let_def updateColumns_frame updateColumns_original sortData_frame)

theorem updateData_empty_filter_witness:
  "trim (filter_text (example_state example_heap [0, 1])) = [] \<and>
   filter_stage_due (example_state example_heap [0, 1]) \<and>
   filtered (updateData example_tonum (TABLE_FILTERS_default example_tonum) no_table
               (example_state example_heap [0, 1])) = [0, 1]"
  using updateData_empty_filter [of "example_state example_heap [0, 1]" example_tonum
      "TABLE_FILTERS_default example_tonum" no_table]
  by (simp add: example_state_def trim_def filter_stage_due_def)





text \<open>
  Claim C10. A recompute that leaves a filtered tier of another length than before puts
  the page back to 0 and marks the configuration as changed; one that leaves a filtered
  tier of the same length leaves the page number as it was. Only the filter stage writes
  the filtered tier, so the first case is a filter pass.
\<close>

theorem updateData_page_reset:
  "(length (filtered (updateData tonum dflt table st)) \<noteq> length (filtered st) \<longrightarrow>
      page (updateData tonum dflt table st) = 0 \<and> pendingConfigChange (updateData tonum dflt table st))
   \<and> (length (filtered (updateData tonum dflt table st)) = length (filtered st) \<longrightarrow>
      page (updateData tonum dflt table st) = page st)"
  by (simp add: updateData_def Let_def updateColumns_frame sortData_frame split: sum.splits)

lemma filter_state_filtered:
  "filtered (updateData example_tonum (TABLE_FILTERS_default example_tonum) no_table filter_state) = [1]"
  by code_simp

lemma filter_state_same_length:
  "filtered (updateData example_tonum (TABLE_FILTERS_default example_tonum) no_table
               (filter_state\<lparr>filter_text := ''Name != c''\<rparr>)) = [0, 1]"
  by code_simp

theorem updateData_page_reset_witness:
  "length (filtered (updateData example_tonum (TABLE_FILTERS_default example_tonum) no_table filter_state))
       \<noteq> length (filtered filter_state)
   \<and> page filter_state = 1
   \<and> page (updateData example_tonum (TABLE_FILTERS_default example_tonum) no_table filter_state) = 0
   \<and> pendingConfigChange (updateData example_tonum (TABLE_FILTERS_default example_tonum) no_table filter_state)
   \<and> length (filtered (updateData example_tonum (TABLE_FILTERS_default example_tonum) no_table
                 (filter_state\<lparr>filter_text := ''Name != c''\<rparr>)))
       = length (filtered (filter_state\<lparr>filter_text := ''Name != c''\<rparr>))
   \<and> page (updateData example_tonum (TABLE_FILTERS_default example_tonum) no_table
             (filter_state\<lparr>filter_text := ''Name != c''\<rparr>)) = 1"
proof -
  have len: "length (filtered (updateData example_tonum (TABLE_FILTERS_default example_tonum) no_table filter_state))
       \<noteq> length (filtered filter_state)"
    by (simp add: filter_state_filtered) (simp add: filter_state_def example_state_def)
  have same: "length (filtered (updateData example_tonum (TABLE_FILTERS_default example_tonum) no_table
                 (filter_state\<lparr>filter_text := ''Name != c''\<rparr>)))
       = length (filtered (filter_state\<lparr>filter_text := ''Name != c''\<rparr>))"
    by (simp add: filter_state_same_length) (simp add: filter_state_def example_state_def)
  have pg: "page filter_state = 1" "page (filter_state\<lparr>filter_text := ''Name != c''\<rparr>) = 1"
    by (simp_all add: filter_state_def example_state_def)
  show ?thesis
    using len same pg
      updateData_page_reset [of example_tonum "TABLE_FILTERS_default example_tonum" no_table filter_state]
      updateData_page_reset [of example_tonum "TABLE_FILTERS_default example_tonum" no_table
        "filter_state\<lparr>filter_text := ''Name != c''\<rparr>"]
    by presburger
qed

end
